theory Spec2Isabelle
  imports Main
begin

section \<open>Strings and the process environment\<close>

text \<open>
  The settings module \<^verbatim>\<open>core/settings.py\<close> is straight-line code over the process
  environment. A Python \<^verbatim>\<open>str\<close> is modelled as a \<^typ>\<open>string\<close> whose characters stand
  for code points below 256, and \<^verbatim>\<open>os.environ\<close> (as it is after \<^verbatim>\<open>load_dotenv\<close> has
  run) as a map from names to values. \<^verbatim>\<open>None\<close> is \<^term>\<open>None\<close>.
\<close>

type_synonym environ = "string \<rightharpoonup> string"

text \<open>\<^verbatim>\<open>os.getenv(key)\<close> and \<^verbatim>\<open>os.getenv(key, default)\<close>.\<close>

definition getenv :: "environ \<Rightarrow> string \<Rightarrow> string option" where
  "getenv env key = env key"

definition getenv_default :: "environ \<Rightarrow> string \<Rightarrow> string \<Rightarrow> string" where
  "getenv_default env key dflt = (case env key of None \<Rightarrow> dflt | Some v \<Rightarrow> v)"

text \<open>\<^verbatim>\<open>os.getenv("EMAIL_PORT", 587)\<close>: the default is an integer, a value read is a string.\<close>

datatype str_or_int = PyStr string | PyInt int

definition getenv_default_int :: "environ \<Rightarrow> string \<Rightarrow> int \<Rightarrow> str_or_int" where
  "getenv_default_int env key dflt = (case env key of None \<Rightarrow> PyInt dflt | Some v \<Rightarrow> PyStr v)"

text \<open>
  \<^verbatim>\<open>s.split(sep)\<close> for a one-character separator: consecutive separators delimit empty
  strings, and splitting the empty string gives \<^verbatim>\<open>['']\<close>. The result is never the
  empty list, so the last case of the inner \<open>case\<close> is not reached.
\<close>

fun str_split :: "string \<Rightarrow> char \<Rightarrow> string list" where
  "str_split [] sep = [[]]"
| "str_split (c # s) sep =
     (if c = sep then [] # str_split s sep
      else (case str_split s sep of
              p # ps \<Rightarrow> (c # p) # ps
            | [] \<Rightarrow> [[c]]))"

text \<open>\<^verbatim>\<open>sep.join(parts)\<close>.\<close>

fun str_join :: "string \<Rightarrow> string list \<Rightarrow> string" where
  "str_join sep [] = []"
| "str_join sep [p] = p"
| "str_join sep (p # q # ps) = p @ sep @ str_join sep (q # ps)"

text \<open>
  \<^verbatim>\<open>str.isspace\<close> on one character, for the code points below 256: TAB, LF, VT, FF, CR,
  the separators FS, GS, RS, US, the space, NEL and the no-break space.
\<close>

definition isspace :: "char \<Rightarrow> bool" where
  "isspace c = (c \<in> {CHR 0x09, CHR 0x0A, CHR 0x0B, CHR 0x0C, CHR 0x0D,
                      CHR 0x1C, CHR 0x1D, CHR 0x1E, CHR 0x1F, CHR 0x20,
                      CHR 0x85, CHR 0xA0})"

text \<open>\<^verbatim>\<open>s.strip()\<close>: leading and trailing whitespace removed.\<close>

definition str_strip :: "string \<Rightarrow> string" where
  "str_strip s = rev (dropWhile isspace (rev (dropWhile isspace s)))"

section \<open>What the module calls outside itself\<close>

text \<open>
  Exceptions are values. The module has no \<^verbatim>\<open>raise\<close> of its own; the calls that can
  raise are the ones into the database URL library and the file system.
\<close>

datatype error = ValueError string | OSError string

text \<open>
  The results of the calls the module makes outside this repository:
  \<^item> \<^verbatim>\<open>get_random_secret_key()\<close>: the key it returns;
  \<^item> \<^verbatim>\<open>dj_database_url.config(default=..., conn_max_age=...)\<close>: a function of the
    environment (which the library reads itself), the default URL and the
    connection age, returning the connection dictionary or raising;
  \<^item> \<^verbatim>\<open>os.makedirs(log_dir, exist_ok=True)\<close>: the exception raised, if any;
  \<^item> \<^verbatim>\<open>log_file_path.exists()\<close>: its answer, or the exception it raises (it passes on
    every \<^verbatim>\<open>OSError\<close> other than "no such file", such as a directory that cannot be
    searched);
  \<^item> \<^verbatim>\<open>log_file_path.touch()\<close>: the exception raised, if any.
\<close>

record 'db externals =
  get_random_secret_key :: string
  dj_database_url_config :: "environ \<Rightarrow> string \<Rightarrow> nat \<Rightarrow> error + 'db"
  os_makedirs :: "error option"
  log_file_path_exists :: "error + bool"
  log_file_path_touch :: "error option"

section \<open>The settings\<close>

record logging =
  console_level :: string
  console_formatter :: string
  file_level :: string
  file_formatter :: string
  root_handlers :: "string list"
  root_level :: string

text \<open>
  The names the module binds from the environment. \<^verbatim>\<open>CORS_ALLOW_ALL_ORIGINS\<close> and
  \<^verbatim>\<open>CORS_ALLOWED_ORIGINS\<close> are each bound in one branch only, so they are optional:
  \<^term>\<open>None\<close> is a name the module never assigned.
\<close>

record 'db settings =
  SECRET_KEY :: string
  DEBUG :: bool
  ALLOWED_HOSTS :: "string list"
  DATABASE_URL :: string
  DATABASES_default :: 'db
  CORS_ALLOW_CREDENTIALS :: bool
  CORS_ALLOW_ALL_ORIGINS :: "bool option"
  CORS_ALLOWED_ORIGINS :: "string list option"
  LOGGING :: logging
  EMAIL_BACKEND :: string
  DEFAULT_FROM_EMAIL :: "string option"
  EMAIL_HOST :: "string option"
  EMAIL_PORT :: str_or_int
  EMAIL_USE_TLS :: bool
  EMAIL_HOST_USER :: "string option"
  EMAIL_HOST_PASSWORD :: "string option"

subsection \<open>The blocks of the module, each with the lines it prints\<close>

text \<open>
  \<^verbatim>\<open>if not SECRET_KEY\<close> and \<^verbatim>\<open>if not DATABASE_URL\<close> test the truth value of an optional
  string: \<^verbatim>\<open>None\<close> and the empty string are both false.
\<close>

definition secret_key_block :: "string \<Rightarrow> environ \<Rightarrow> string \<times> string list" where
  "secret_key_block random_key env =
     (let generated =
            (random_key, [''WARNING: Secret key not set. Using a random secret key.''])
      in case getenv env ''SECRET_KEY'' of
           None \<Rightarrow> generated
         | Some key \<Rightarrow> if key = [] then generated else (key, []))"

definition debug_block :: "environ \<Rightarrow> bool \<times> string list" where
  "debug_block env =
     (let debug = (getenv_default env ''DEBUG'' ''False'' = ''True'') in
      if debug then (debug, [''WARNING: Debug mode is enabled.'']) else (debug, []))"

definition allowed_hosts_block :: "environ \<Rightarrow> string list" where
  "allowed_hosts_block env =
     str_split (getenv_default env ''ALLOWED_HOSTS'' ''localhost'') CHR '',''"

definition database_url_block :: "environ \<Rightarrow> string \<times> string list" where
  "database_url_block env =
     (let fallback =
            (''sqlite:///db.sqlite3'',
             [''WARNING: No database URL found in the environment. Using SQLite.''])
      in case getenv env ''DATABASE_URL'' of
           None \<Rightarrow> fallback
         | Some url \<Rightarrow> if url = [] then fallback else (url, []))"

text \<open>
  The CORS block gives \<^verbatim>\<open>CORS_ALLOW_CREDENTIALS\<close>, \<^verbatim>\<open>CORS_ALLOW_ALL_ORIGINS\<close>,
  \<^verbatim>\<open>CORS_ALLOWED_ORIGINS\<close> and the printed lines. The list comprehension filters the
  split entries on \<^verbatim>\<open>origin.strip()\<close> being non-empty and keeps the stripped entry.
\<close>

definition cors_block ::
  "environ \<Rightarrow> bool \<times> bool option \<times> string list option \<times> string list" where
  "cors_block env =
     (if getenv env ''CORS_ALLOWED_ORIGINS'' = Some ''*''
      then (True, Some True, None, [''WARNING: All CORS origins are allowed.''])
      else
        (let origins =
               map str_strip
                 (filter (\<lambda>origin. str_strip origin \<noteq> [])
                    (str_split (getenv_default env ''CORS_ALLOWED_ORIGINS'' []) CHR '','')) in
         if origins = []
         then (True, None, Some origins, [''WARNING: No CORS origins are allowed.''])
         else (True, None, Some origins, [])))"

text \<open>
  The log directory and file: \<^verbatim>\<open>os.makedirs\<close>, then \<^verbatim>\<open>exists\<close>, then \<^verbatim>\<open>touch\<close> only when
  the file does not exist. Each of the three calls can raise. The result is the exception
  that ends the module, if any.
\<close>

definition log_file_block :: "'db externals \<Rightarrow> error option" where
  "log_file_block ext =
     (case os_makedirs ext of
        Some e \<Rightarrow> Some e
      | None \<Rightarrow>
          (case log_file_path_exists ext of
             Inl e \<Rightarrow> Some e
           | Inr present \<Rightarrow> if \<not> present then log_file_path_touch ext else None))"

definition logging_block :: "bool \<Rightarrow> logging" where
  "logging_block debug =
     \<lparr> console_level = (if debug then ''DEBUG'' else ''INFO''),
       console_formatter = (if debug then ''verbose'' else ''simple''),
       file_level = ''WARNING'',
       file_formatter = ''verbose'',
       root_handlers = [''console'', ''file''],
       root_level = (if debug then ''DEBUG'' else ''INFO'') \<rparr>"

definition email_backend_block :: "bool \<Rightarrow> string" where
  "email_backend_block debug =
     (if \<not> debug then ''django.core.mail.backends.smtp.EmailBackend''
      else ''django.core.mail.backends.console.EmailBackend'')"

subsection \<open>The module\<close>

text \<open>
  Evaluating the module gives the lines printed so far and either the exception that
  ended it or the settings. The blocks run in the order of the file: the lines printed
  before an exception stay printed.
\<close>

definition settings_module ::
  "'db externals \<Rightarrow> environ \<Rightarrow> string list \<times> (error + 'db settings)" where
  "settings_module ext env =
     (let (secret_key, out1) = secret_key_block (get_random_secret_key ext) env;
          (debug, out2) = debug_block env;
          allowed_hosts = allowed_hosts_block env;
          (database_url, out3) = database_url_block env
      in case dj_database_url_config ext env database_url 600 of
           Inl e \<Rightarrow> (out1 @ out2 @ out3, Inl e)
         | Inr db \<Rightarrow>
             (let (allow_credentials, allow_all, origins, out4) = cors_block env;
                  out = out1 @ out2 @ out3 @ out4
              in case log_file_block ext of
                   Some e \<Rightarrow> (out, Inl e)
                 | None \<Rightarrow>
                     (out,
                      Inr \<lparr> SECRET_KEY = secret_key,
                            DEBUG = debug,
                            ALLOWED_HOSTS = allowed_hosts,
                            DATABASE_URL = database_url,
                            DATABASES_default = db,
                            CORS_ALLOW_CREDENTIALS = allow_credentials,
                            CORS_ALLOW_ALL_ORIGINS = allow_all,
                            CORS_ALLOWED_ORIGINS = origins,
                            LOGGING = logging_block debug,
                            EMAIL_BACKEND = email_backend_block debug,
                            DEFAULT_FROM_EMAIL = getenv env ''DEFAULT_FROM_EMAIL'',
                            EMAIL_HOST = getenv env ''EMAIL_HOST'',
                            EMAIL_PORT = getenv_default_int env ''EMAIL_PORT'' 587,
                            EMAIL_USE_TLS =
                              (getenv_default env ''EMAIL_USE_TLS'' ''True'' = ''True''),
                            EMAIL_HOST_USER = getenv env ''EMAIL_HOST_USER'',
                            EMAIL_HOST_PASSWORD = getenv env ''EMAIL_HOST_PASSWORD'' \<rparr>)))"

subsection \<open>The derivation of the origin list as the specification words it\<close>

text \<open>
  The specification describes the CORS origin list as "derived by splitting and trimming
  a comma-separated string". This is that description alone, for comparison with
  \<^const>\<open>cors_block\<close>: split on commas, trim each entry.
\<close>

definition split_and_trim :: "string \<Rightarrow> string list" where
  "split_and_trim v = map str_strip (str_split v CHR '','')"

subsection \<open>Concrete runs\<close>

fun starts_with :: "string \<Rightarrow> string \<Rightarrow> bool" where
  "starts_with [] s = True"
| "starts_with (p # ps) [] = False"
| "starts_with (p # ps) (c # cs) = (p = c \<and> starts_with ps cs)"

text \<open>
  Modelled from the spec: \<^verbatim>\<open>dj_database_url.config\<close> is a library outside the repository.
  The specification says that the value of \<^verbatim>\<open>DATABASE_URL\<close> is "parsed into a database
  connection configuration" and that "an unparsable database URL" surfaces as a failure at
  startup. This stand-in is used for the concrete runs only. It takes the URL from the
  variable, or else from the default handed to it; an empty URL gives an empty
  configuration; a URL that starts with one of a few schemes is accepted, and the answer
  is the URL itself; anything else, such as \<^verbatim>\<open>not a url\<close>, raises.
\<close>

definition sample_config :: "environ \<Rightarrow> string \<Rightarrow> nat \<Rightarrow> error + string" where
  "sample_config env dflt conn_max_age =
     (let url = getenv_default env ''DATABASE_URL'' dflt in
      if url = [] then Inr []
      else if starts_with ''sqlite://'' url \<or> starts_with ''postgres://'' url \<or>
              starts_with ''postgresql://'' url \<or> starts_with ''mysql://'' url
      then Inr url
      else Inl (ValueError url))"

text \<open>
  Outside calls for the examples below: the key generator answers \<^verbatim>\<open>r4nd0m\<close>, the
  directory can be made, and the log file does not exist yet and can be created.
\<close>

definition sample_externals :: "string externals" where
  "sample_externals =
     \<lparr> get_random_secret_key = ''r4nd0m'',
       dj_database_url_config = sample_config,
       os_makedirs = None,
       log_file_path_exists = Inr False,
       log_file_path_touch = None \<rparr>"


section \<open>Properties of the string operations\<close>

lemma str_split_not_Nil: "str_split s sep \<noteq> []"
  by (induction s) (auto split: list.splits)

lemma str_split_pieces:
  "p \<in> set (str_split s sep) \<Longrightarrow> set p \<subseteq> set s \<and> sep \<notin> set p"
proof (induction s arbitrary: p)
  case Nil
  then show ?case by simp
next
  case (Cons c s)
  show ?case
  proof (cases "c = sep")
    case True
    with Cons show ?thesis by auto
  next
    case False
    obtain q qs where q: "str_split s sep = q # qs"
      using str_split_not_Nil [of s sep] by (cases "str_split s sep") auto
    with False Cons.prems have "p = c # q \<or> p \<in> set qs" by auto
    then show ?thesis
    proof
      assume "p = c # q"
      moreover have "set q \<subseteq> set s \<and> sep \<notin> set q" using Cons.IH [of q] q by simp
      ultimately show ?thesis using False by auto
    next
      assume "p \<in> set qs"
      then have "set p \<subseteq> set s \<and> sep \<notin> set p" using Cons.IH [of p] q by simp
      then show ?thesis by auto
    qed
  qed
qed

lemma str_join_split: "str_join [sep] (str_split s sep) = s"
proof (induction s)
  case Nil
  then show ?case by simp
next
  case (Cons c s)
  obtain q qs where q: "str_split s sep = q # qs"
    using str_split_not_Nil [of s sep] by (cases "str_split s sep") auto
  show ?case
  proof (cases "c = sep")
    case True
    with Cons q show ?thesis by simp
  next
    case False
    with Cons q show ?thesis by (cases qs) auto
  qed
qed

lemma str_strip_all_space:
  assumes "\<forall>c\<in>set p. isspace c"
  shows "str_strip p = []"
proof -
  have all_dropped: "dropWhile isspace p = []"
    using assms by simp
  show ?thesis unfolding str_strip_def all_dropped by simp
qed

section \<open>Properties of the module\<close>

text \<open>What a completed run bound, block by block, and what it printed.\<close>

lemma settings_module_InrD:
  assumes "settings_module ext env = (out, Inr s)"
  shows "SECRET_KEY s = fst (secret_key_block (get_random_secret_key ext) env)"
    and "DEBUG s = fst (debug_block env)"
    and "ALLOWED_HOSTS s = allowed_hosts_block env"
    and "DATABASE_URL s = fst (database_url_block env)"
    and "dj_database_url_config ext env (fst (database_url_block env)) 600 = Inr (DATABASES_default s)"
    and "CORS_ALLOW_CREDENTIALS s = fst (cors_block env)"
    and "CORS_ALLOW_ALL_ORIGINS s = fst (snd (cors_block env))"
    and "CORS_ALLOWED_ORIGINS s = fst (snd (snd (cors_block env)))"
    and "out = snd (secret_key_block (get_random_secret_key ext) env) @ snd (debug_block env) @
               snd (database_url_block env) @ snd (snd (snd (cors_block env)))"
    and "LOGGING s = logging_block (DEBUG s)"
    and "EMAIL_BACKEND s = email_backend_block (DEBUG s)"
    and "log_file_block ext = None"
  using assms
  by (auto simp: settings_module_def Let_def split: prod.splits sum.splits option.splits)

lemma settings_module_returns:
  assumes "dj_database_url_config ext env (fst (database_url_block env)) 600 = Inr db"
    and "log_file_block ext = None"
  shows "\<exists>out s. settings_module ext env = (out, Inr s)"
  using assms
  by (auto simp: settings_module_def Let_def split: prod.splits sum.splits option.splits)





lemma sample_run:
  assumes "env ''DATABASE_URL'' = None"
  shows "\<exists>out s. settings_module sample_externals env = (out, Inr s)"
proof -
  from assms have "fst (database_url_block env) = ''sqlite:///db.sqlite3''"
    by (simp add: database_url_block_def getenv_def)
  with assms have
    "dj_database_url_config sample_externals env (fst (database_url_block env)) 600
       = Inr ''sqlite:///db.sqlite3''"
    by (simp add: sample_externals_def sample_config_def getenv_default_def)
  moreover have "log_file_block sample_externals = None"
    by (simp add: sample_externals_def log_file_block_def)
  ultimately show ?thesis by (rule settings_module_returns)
qed

section \<open>The CORS origins\<close>

text \<open>
  C1. When \<^verbatim>\<open>CORS_ALLOWED_ORIGINS\<close> is absent from the environment, or its value is
  empty or made of commas and whitespace only, a completed run binds the allowed-origin
  list to the empty list and has printed the warning that no CORS origins are allowed.
\<close>

theorem cors_origins_empty_when_unset_or_blank:
  assumes run: "settings_module ext env = (out, Inr s)"
    and blank: "env ''CORS_ALLOWED_ORIGINS'' = None \<or>
                (\<exists>v. env ''CORS_ALLOWED_ORIGINS'' = Some v \<and>
                     (\<forall>c\<in>set v. c = CHR '','' \<or> isspace c))"
  shows "CORS_ALLOWED_ORIGINS s = Some [] \<and>
         ''WARNING: No CORS origins are allowed.'' \<in> set out"
proof -
  let ?v = "getenv_default env ''CORS_ALLOWED_ORIGINS'' []"
  have star_not_blank: "\<not> (\<forall>c\<in>set ''*''. c = CHR '','' \<or> isspace c)"
    by (simp add: isspace_def)
  from blank have chars_and_not_star:
    "(\<forall>c\<in>set ?v. c = CHR '','' \<or> isspace c) \<and>
     getenv env ''CORS_ALLOWED_ORIGINS'' \<noteq> Some ''*''"
  proof
    assume "env ''CORS_ALLOWED_ORIGINS'' = None"
    then show ?thesis by (simp add: getenv_default_def getenv_def)
  next
    assume "\<exists>v. env ''CORS_ALLOWED_ORIGINS'' = Some v \<and>
                (\<forall>c\<in>set v. c = CHR '','' \<or> isspace c)"
    then obtain v where v: "env ''CORS_ALLOWED_ORIGINS'' = Some v"
      and cs: "\<forall>c\<in>set v. c = CHR '','' \<or> isspace c"
      by blast
    from cs star_not_blank have "v \<noteq> ''*''" by blast
    with v cs show ?thesis by (simp add: getenv_default_def getenv_def)
  qed
  then have chars: "\<forall>c\<in>set ?v. c = CHR '','' \<or> isspace c"
    and not_star: "getenv env ''CORS_ALLOWED_ORIGINS'' \<noteq> Some ''*''"
    by blast+
  have "str_strip p = []" if "p \<in> set (str_split ?v CHR '','')" for p
  proof -
    have "\<forall>c\<in>set p. isspace c"
    proof
      fix c
      assume "c \<in> set p"
      with str_split_pieces [OF that] have "c \<in> set ?v" and "c \<noteq> CHR '',''"
        by blast+
      with chars show "isspace c" by blast
    qed
    then show ?thesis by (rule str_strip_all_space)
  qed
  then have "filter (\<lambda>origin. str_strip origin \<noteq> []) (str_split ?v CHR '','') = []"
    by (simp add: filter_empty_conv)
  with not_star have
    "cors_block env = (True, None, Some [], [''WARNING: No CORS origins are allowed.''])"
    by (simp add: cors_block_def)
  with settings_module_InrD(6,7,8,9) [OF run] show ?thesis by simp
qed

theorem cors_origins_empty_when_unset_or_blank_witness:
  "map_sum id CORS_ALLOWED_ORIGINS
     (snd (settings_module sample_externals [''CORS_ALLOWED_ORIGINS'' \<mapsto> '' , ,''])) = Inr (Some []) \<and>
   ''WARNING: No CORS origins are allowed.''
     \<in> set (fst (settings_module sample_externals [''CORS_ALLOWED_ORIGINS'' \<mapsto> '' , ,'']))"
proof -
  let ?env = "[''CORS_ALLOWED_ORIGINS'' \<mapsto> '' , ,'']"
  obtain out s where run: "settings_module sample_externals ?env = (out, Inr s)"
    using sample_run [of "?env"] by auto
  have blank: "?env ''CORS_ALLOWED_ORIGINS'' = None \<or>
               (\<exists>v. ?env ''CORS_ALLOWED_ORIGINS'' = Some v \<and>
                    (\<forall>c\<in>set v. c = CHR '','' \<or> isspace c))"
    by (simp add: isspace_def)
  from cors_origins_empty_when_unset_or_blank [OF run blank] run show ?thesis by simp
qed

text \<open>
  C2. When \<^verbatim>\<open>CORS_ALLOWED_ORIGINS\<close> is exactly \<^verbatim>\<open>"*"\<close>, a completed run binds
  \<^verbatim>\<open>CORS_ALLOW_ALL_ORIGINS\<close> to \<^verbatim>\<open>True\<close> and has printed the warning that all origins
  are allowed.
\<close>

theorem cors_wildcard_allows_all_origins:
  assumes run: "settings_module ext env = (out, Inr s)"
    and star: "env ''CORS_ALLOWED_ORIGINS'' = Some ''*''"
  shows "CORS_ALLOW_ALL_ORIGINS s = Some True \<and>
         ''WARNING: All CORS origins are allowed.'' \<in> set out"
proof -
  from star have
    "cors_block env = (True, Some True, None, [''WARNING: All CORS origins are allowed.''])"
    by (simp add: cors_block_def getenv_def)
  with settings_module_InrD(6,7,8,9) [OF run] show ?thesis by simp
qed

theorem cors_wildcard_allows_all_origins_witness:
  "map_sum id CORS_ALLOW_ALL_ORIGINS
     (snd (settings_module sample_externals [''CORS_ALLOWED_ORIGINS'' \<mapsto> ''*''])) = Inr (Some True) \<and>
   ''WARNING: All CORS origins are allowed.''
     \<in> set (fst (settings_module sample_externals [''CORS_ALLOWED_ORIGINS'' \<mapsto> ''*'']))"
proof -
  let ?env = "[''CORS_ALLOWED_ORIGINS'' \<mapsto> ''*'']"
  obtain out s where run: "settings_module sample_externals ?env = (out, Inr s)"
    using sample_run [of "?env"] by auto
  have star: "?env ''CORS_ALLOWED_ORIGINS'' = Some ''*''" by simp
  from cors_wildcard_allows_all_origins [OF run star] run show ?thesis by simp
qed

text \<open>
  C3, as stated, fails: the value \<^verbatim>\<open>"a,,b"\<close> is not \<^verbatim>\<open>"*"\<close>, splitting and trimming it
  gives three entries, the middle one empty, and the module binds the two-entry list.
\<close>

theorem cors_origins_not_split_and_trim_counterexample:
  "map_sum id CORS_ALLOWED_ORIGINS
     (snd (settings_module sample_externals [''CORS_ALLOWED_ORIGINS'' \<mapsto> ''a,,b'']))
     = Inr (Some [''a'', ''b'']) \<and>
   split_and_trim ''a,,b'' = [''a'', [], ''b''] \<and>
   ''a,,b'' \<noteq> ''*''"
  by (simp add: settings_module_def sample_externals_def sample_config_def
      secret_key_block_def debug_block_def allowed_hosts_block_def database_url_block_def
      cors_block_def log_file_block_def getenv_def getenv_default_def split_and_trim_def
      str_strip_def isspace_def)

text \<open>
  C3, amended. For every value of \<^verbatim>\<open>CORS_ALLOWED_ORIGINS\<close> other than \<^verbatim>\<open>"*"\<close>, the
  allowed-origin list of a completed run is the value split on commas, each entry
  trimmed, with the entries that are empty after trimming left out.
\<close>

theorem cors_origins_split_trim_drop_empty:
  assumes run: "settings_module ext env = (out, Inr s)"
    and val: "env ''CORS_ALLOWED_ORIGINS'' = Some v"
    and not_star: "v \<noteq> ''*''"
  shows "CORS_ALLOWED_ORIGINS s = Some (filter (\<lambda>origin. origin \<noteq> []) (split_and_trim v))"
proof -
  have "map str_strip (filter (\<lambda>origin. str_strip origin \<noteq> []) (str_split v CHR '',''))
        = filter (\<lambda>origin. origin \<noteq> []) (split_and_trim v)"
    by (simp add: split_and_trim_def filter_map comp_def)
  with val not_star have "fst (snd (snd (cors_block env))) =
                          Some (filter (\<lambda>origin. origin \<noteq> []) (split_and_trim v))"
    by (simp add: cors_block_def getenv_def getenv_default_def Let_def)
  with settings_module_InrD(8) [OF run] show ?thesis by simp
qed

theorem cors_origins_split_trim_drop_empty_witness:
  "map_sum id CORS_ALLOWED_ORIGINS
     (snd (settings_module sample_externals [''CORS_ALLOWED_ORIGINS'' \<mapsto> ''a,,b'']))
     = Inr (Some (filter (\<lambda>origin. origin \<noteq> []) (split_and_trim ''a,,b'')))"
proof -
  let ?env = "[''CORS_ALLOWED_ORIGINS'' \<mapsto> ''a,,b'']"
  obtain out s where run: "settings_module sample_externals ?env = (out, Inr s)"
    using sample_run [of "?env"] by auto
  have val: "?env ''CORS_ALLOWED_ORIGINS'' = Some ''a,,b''" by simp
  have not_star: "''a,,b'' \<noteq> ''*''" by simp
  from cors_origins_split_trim_drop_empty [OF run val not_star] run show ?thesis by simp
qed

text \<open>
  C9. \<^verbatim>\<open>CORS_ALLOW_CREDENTIALS\<close> is \<^verbatim>\<open>True\<close> in every completed run, whatever the
  environment holds; in particular it stays \<^verbatim>\<open>True\<close> when the wildcard \<^verbatim>\<open>"*"\<close> has
  switched \<^verbatim>\<open>CORS_ALLOW_ALL_ORIGINS\<close> on.
\<close>

theorem cors_allow_credentials_always_true:
  assumes run: "settings_module ext env = (out, Inr s)"
  shows "CORS_ALLOW_CREDENTIALS s \<and>
         (env ''CORS_ALLOWED_ORIGINS'' = Some ''*'' \<longrightarrow>
            CORS_ALLOW_ALL_ORIGINS s = Some True \<and> CORS_ALLOW_CREDENTIALS s)"
proof -
  have "fst (cors_block env)"
    by (simp add: cors_block_def Let_def)
  moreover have "env ''CORS_ALLOWED_ORIGINS'' = Some ''*'' \<longrightarrow>
                 fst (snd (cors_block env)) = Some True"
    by (simp add: cors_block_def getenv_def)
  ultimately show ?thesis
    using settings_module_InrD(6,7) [OF run] by simp
qed

theorem cors_allow_credentials_always_true_witness:
  "map_sum id CORS_ALLOW_CREDENTIALS
     (snd (settings_module sample_externals [''CORS_ALLOWED_ORIGINS'' \<mapsto> ''*''])) = Inr True \<and>
   map_sum id CORS_ALLOW_ALL_ORIGINS
     (snd (settings_module sample_externals [''CORS_ALLOWED_ORIGINS'' \<mapsto> ''*''])) = Inr (Some True)"
proof -
  let ?env = "[''CORS_ALLOWED_ORIGINS'' \<mapsto> ''*'']"
  obtain out s where run: "settings_module sample_externals ?env = (out, Inr s)"
    using sample_run [of "?env"] by auto
  from cors_allow_credentials_always_true [OF run] run show ?thesis by simp
qed

text \<open>
  C10. The wildcard is recognised by equality of the untrimmed value with \<^verbatim>\<open>"*"\<close> and by
  nothing else: for any other value \<^verbatim>\<open>CORS_ALLOW_ALL_ORIGINS\<close> is not bound, and when one
  of the comma-separated entries of such a value trims to \<^verbatim>\<open>"*"\<close> (as in \<^verbatim>\<open>" * "\<close> or
  \<^verbatim>\<open>"*,example.com"\<close>), the string \<^verbatim>\<open>"*"\<close> is an entry of the allowed-origin list.
\<close>

theorem cors_wildcard_exact_match_only:
  assumes run: "settings_module ext env = (out, Inr s)"
  shows "(env ''CORS_ALLOWED_ORIGINS'' = Some ''*'' \<longrightarrow> CORS_ALLOW_ALL_ORIGINS s = Some True) \<and>
         (env ''CORS_ALLOWED_ORIGINS'' \<noteq> Some ''*'' \<longrightarrow> CORS_ALLOW_ALL_ORIGINS s = None) \<and>
         (\<forall>v p. env ''CORS_ALLOWED_ORIGINS'' = Some v \<and> v \<noteq> ''*'' \<and>
                p \<in> set (str_split v CHR '','') \<and> str_strip p = ''*'' \<longrightarrow>
                (\<exists>origins. CORS_ALLOWED_ORIGINS s = Some origins \<and> ''*'' \<in> set origins))"
proof (intro conjI allI impI)
  assume "env ''CORS_ALLOWED_ORIGINS'' = Some ''*''"
  then have "fst (snd (cors_block env)) = Some True"
    by (simp add: cors_block_def getenv_def)
  with settings_module_InrD(7) [OF run] show "CORS_ALLOW_ALL_ORIGINS s = Some True" by simp
next
  assume "env ''CORS_ALLOWED_ORIGINS'' \<noteq> Some ''*''"
  then have "fst (snd (cors_block env)) = None"
    by (simp add: cors_block_def getenv_def Let_def)
  with settings_module_InrD(7) [OF run] show "CORS_ALLOW_ALL_ORIGINS s = None" by simp
next
  fix v p
  assume h: "env ''CORS_ALLOWED_ORIGINS'' = Some v \<and> v \<noteq> ''*'' \<and>
             p \<in> set (str_split v CHR '','') \<and> str_strip p = ''*''"
  let ?origins = "map str_strip (filter (\<lambda>origin. str_strip origin \<noteq> []) (str_split v CHR '',''))"
  from h have "fst (snd (snd (cors_block env))) = Some ?origins"
    by (simp add: cors_block_def getenv_def getenv_default_def Let_def)
  with settings_module_InrD(8) [OF run] have bound: "CORS_ALLOWED_ORIGINS s = Some ?origins"
    by simp
  from h have "p \<in> set (filter (\<lambda>origin. str_strip origin \<noteq> []) (str_split v CHR '',''))"
    by simp
  then have "str_strip p \<in> set ?origins"
    unfolding set_map by (rule imageI)
  with h have "''*'' \<in> set ?origins" by simp
  with bound show "\<exists>origins. CORS_ALLOWED_ORIGINS s = Some origins \<and> ''*'' \<in> set origins"
    by blast
qed

theorem cors_wildcard_exact_match_only_witness:
  "map_sum id CORS_ALLOW_ALL_ORIGINS
     (snd (settings_module sample_externals [''CORS_ALLOWED_ORIGINS'' \<mapsto> '' * ''])) = Inr None \<and>
   map_sum id CORS_ALLOWED_ORIGINS
     (snd (settings_module sample_externals [''CORS_ALLOWED_ORIGINS'' \<mapsto> '' * ''])) = Inr (Some [''*'']) \<and>
   map_sum id CORS_ALLOW_ALL_ORIGINS
     (snd (settings_module sample_externals [''CORS_ALLOWED_ORIGINS'' \<mapsto> ''*,example.com''])) = Inr None \<and>
   map_sum id CORS_ALLOWED_ORIGINS
     (snd (settings_module sample_externals [''CORS_ALLOWED_ORIGINS'' \<mapsto> ''*,example.com'']))
     = Inr (Some [''*'', ''example.com''])"
proof -
  let ?env1 = "[''CORS_ALLOWED_ORIGINS'' \<mapsto> '' * '']"
  let ?env2 = "[''CORS_ALLOWED_ORIGINS'' \<mapsto> ''*,example.com'']"
  obtain out1 s1 where run1: "settings_module sample_externals ?env1 = (out1, Inr s1)"
    using sample_run [of "?env1"] by auto
  obtain out2 s2 where run2: "settings_module sample_externals ?env2 = (out2, Inr s2)"
    using sample_run [of "?env2"] by auto
  have not_all1: "CORS_ALLOW_ALL_ORIGINS s1 = None"
    using cors_wildcard_exact_match_only [OF run1] by simp
  have not_all2: "CORS_ALLOW_ALL_ORIGINS s2 = None"
    using cors_wildcard_exact_match_only [OF run2] by simp
  have "'' * '' \<in> set (str_split '' * '' CHR '','') \<and> str_strip '' * '' = ''*''"
    by (simp add: str_strip_def isspace_def)
  with cors_wildcard_exact_match_only [OF run1]
  have star1: "\<exists>origins. CORS_ALLOWED_ORIGINS s1 = Some origins \<and> ''*'' \<in> set origins"
    by simp
  have o1: "CORS_ALLOWED_ORIGINS s1 = Some [''*'']"
    using settings_module_InrD(8) [OF run1]
    by (simp add: cors_block_def getenv_def getenv_default_def str_strip_def isspace_def)
  have o2: "CORS_ALLOWED_ORIGINS s2 = Some [''*'', ''example.com'']"
    using settings_module_InrD(8) [OF run2]
    by (simp add: cors_block_def getenv_def getenv_default_def str_strip_def isspace_def)
  from not_all1 not_all2 star1 o1 o2 run1 run2 show ?thesis by simp
qed

section \<open>Secret key, debug switch, hosts and database\<close>

text \<open>
  C6. When \<^verbatim>\<open>SECRET_KEY\<close> is absent or empty, the module binds the key that
  \<^verbatim>\<open>get_random_secret_key()\<close> returned and prints the warning; otherwise it binds the
  value of the environment unchanged.
\<close>

theorem secret_key_from_environment_or_generated:
  assumes run: "settings_module ext env = (out, Inr s)"
  shows "(env ''SECRET_KEY'' = None \<or> env ''SECRET_KEY'' = Some [] \<longrightarrow>
            SECRET_KEY s = get_random_secret_key ext \<and>
            ''WARNING: Secret key not set. Using a random secret key.'' \<in> set out) \<and>
         (\<forall>key. env ''SECRET_KEY'' = Some key \<and> key \<noteq> [] \<longrightarrow> SECRET_KEY s = key)"
proof (intro conjI allI impI)
  assume "env ''SECRET_KEY'' = None \<or> env ''SECRET_KEY'' = Some []"
  then have "secret_key_block (get_random_secret_key ext) env =
               (get_random_secret_key ext,
                [''WARNING: Secret key not set. Using a random secret key.''])"
    by (auto simp: secret_key_block_def getenv_def)
  with settings_module_InrD(1,9) [OF run]
  show "SECRET_KEY s = get_random_secret_key ext"
    and "''WARNING: Secret key not set. Using a random secret key.'' \<in> set out"
    by simp_all
next
  fix key
  assume "env ''SECRET_KEY'' = Some key \<and> key \<noteq> []"
  then have "secret_key_block (get_random_secret_key ext) env = (key, [])"
    by (simp add: secret_key_block_def getenv_def)
  with settings_module_InrD(1) [OF run] show "SECRET_KEY s = key" by simp
qed

theorem secret_key_from_environment_or_generated_witness:
  "map_sum id SECRET_KEY (snd (settings_module sample_externals Map.empty)) = Inr ''r4nd0m'' \<and>
   ''WARNING: Secret key not set. Using a random secret key.''
     \<in> set (fst (settings_module sample_externals Map.empty)) \<and>
   map_sum id SECRET_KEY (snd (settings_module sample_externals [''SECRET_KEY'' \<mapsto> ''s3cr3t'']))
     = Inr ''s3cr3t''"
proof -
  let ?env2 = "[''SECRET_KEY'' \<mapsto> ''s3cr3t'']"
  obtain out1 s1 where run1: "settings_module sample_externals Map.empty = (out1, Inr s1)"
    using sample_run [of "Map.empty"] by auto
  obtain out2 s2 where run2: "settings_module sample_externals ?env2 = (out2, Inr s2)"
    using sample_run [of "?env2"] by auto
  from secret_key_from_environment_or_generated [OF run1]
       secret_key_from_environment_or_generated [OF run2] run1 run2
  show ?thesis by (simp add: sample_externals_def)
qed

text \<open>
  C5. When \<^verbatim>\<open>DEBUG\<close> is exactly \<^verbatim>\<open>"True"\<close>, the e-mail backend is the console backend
  and the root logger and the console handler are at level DEBUG; for every other value,
  and when the variable is absent, the backend is the SMTP backend and both levels are
  INFO.
\<close>

theorem debug_selects_email_backend_and_log_level:
  assumes run: "settings_module ext env = (out, Inr s)"
  shows "(env ''DEBUG'' = Some ''True'' \<longrightarrow>
            EMAIL_BACKEND s = ''django.core.mail.backends.console.EmailBackend'' \<and>
            root_level (LOGGING s) = ''DEBUG'' \<and> console_level (LOGGING s) = ''DEBUG'') \<and>
         (env ''DEBUG'' \<noteq> Some ''True'' \<longrightarrow>
            EMAIL_BACKEND s = ''django.core.mail.backends.smtp.EmailBackend'' \<and>
            root_level (LOGGING s) = ''INFO'' \<and> console_level (LOGGING s) = ''INFO'')"
proof -
  have debug: "DEBUG s = (env ''DEBUG'' = Some ''True'')"
  proof (cases "env ''DEBUG''")
    case None
    then show ?thesis
      using settings_module_InrD(2) [OF run]
      by (simp add: debug_block_def getenv_default_def Let_def)
  next
    case (Some v)
    then show ?thesis
      using settings_module_InrD(2) [OF run]
      by (simp add: debug_block_def getenv_default_def Let_def)
  qed
  show ?thesis
    using settings_module_InrD(10,11) [OF run] debug
    by (simp add: logging_block_def email_backend_block_def)
qed

theorem debug_selects_email_backend_and_log_level_witness:
  "map_sum id EMAIL_BACKEND (snd (settings_module sample_externals [''DEBUG'' \<mapsto> ''True'']))
     = Inr ''django.core.mail.backends.console.EmailBackend'' \<and>
   map_sum id (\<lambda>s. root_level (LOGGING s))
     (snd (settings_module sample_externals [''DEBUG'' \<mapsto> ''True''])) = Inr ''DEBUG'' \<and>
   map_sum id EMAIL_BACKEND (snd (settings_module sample_externals [''DEBUG'' \<mapsto> ''true'']))
     = Inr ''django.core.mail.backends.smtp.EmailBackend'' \<and>
   map_sum id (\<lambda>s. root_level (LOGGING s))
     (snd (settings_module sample_externals [''DEBUG'' \<mapsto> ''true''])) = Inr ''INFO''"
proof -
  let ?env1 = "[''DEBUG'' \<mapsto> ''True'']"
  let ?env2 = "[''DEBUG'' \<mapsto> ''true'']"
  obtain out1 s1 where run1: "settings_module sample_externals ?env1 = (out1, Inr s1)"
    using sample_run [of "?env1"] by auto
  obtain out2 s2 where run2: "settings_module sample_externals ?env2 = (out2, Inr s2)"
    using sample_run [of "?env2"] by auto
  from debug_selects_email_backend_and_log_level [OF run1]
       debug_selects_email_backend_and_log_level [OF run2] run1 run2
  show ?thesis by simp
qed

text \<open>
  C7. \<^verbatim>\<open>ALLOWED_HOSTS\<close> is a list of strings: the value of the variable, or
  \<^verbatim>\<open>"localhost"\<close> when it is absent, split on commas. Splitting on commas is pinned down
  here by what it means: the entries contain no comma, there is at least one, and joining
  them with commas gives the value back. With the variable absent the list is
  \<^verbatim>\<open>["localhost"]\<close>.
\<close>

theorem allowed_hosts_split_on_commas:
  assumes run: "settings_module ext env = (out, Inr s)"
  shows "ALLOWED_HOSTS s = str_split (getenv_default env ''ALLOWED_HOSTS'' ''localhost'') CHR '','' \<and>
         str_join '','' (ALLOWED_HOSTS s) = getenv_default env ''ALLOWED_HOSTS'' ''localhost'' \<and>
         ALLOWED_HOSTS s \<noteq> [] \<and>
         (\<forall>host\<in>set (ALLOWED_HOSTS s). CHR '','' \<notin> set host) \<and>
         (env ''ALLOWED_HOSTS'' = None \<longrightarrow> ALLOWED_HOSTS s = [''localhost''])"
proof -
  let ?v = "getenv_default env ''ALLOWED_HOSTS'' ''localhost''"
  have split: "ALLOWED_HOSTS s = str_split ?v CHR '',''"
    using settings_module_InrD(3) [OF run] by (simp add: allowed_hosts_block_def)
  have join: "str_join '','' (str_split ?v CHR '','') = ?v"
    by (rule str_join_split)
  have pieces: "\<forall>host\<in>set (str_split ?v CHR '',''). CHR '','' \<notin> set host"
    using str_split_pieces by blast
  have dflt: "str_split ''localhost'' CHR '','' = [''localhost'']"
    by simp
  have absent: "env ''ALLOWED_HOSTS'' = None \<longrightarrow> ?v = ''localhost''"
    by (simp add: getenv_default_def)
  from split join pieces dflt absent str_split_not_Nil [of ?v "CHR '',''"]
  show ?thesis by metis
qed

theorem allowed_hosts_split_on_commas_witness:
  "map_sum id ALLOWED_HOSTS (snd (settings_module sample_externals Map.empty))
     = Inr [''localhost''] \<and>
   map_sum id ALLOWED_HOSTS
     (snd (settings_module sample_externals [''ALLOWED_HOSTS'' \<mapsto> ''a.org,b.org'']))
     = Inr [''a.org'', ''b.org'']"
proof -
  let ?env2 = "[''ALLOWED_HOSTS'' \<mapsto> ''a.org,b.org'']"
  obtain out1 s1 where run1: "settings_module sample_externals Map.empty = (out1, Inr s1)"
    using sample_run [of "Map.empty"] by auto
  obtain out2 s2 where run2: "settings_module sample_externals ?env2 = (out2, Inr s2)"
    using sample_run [of "?env2"] by auto
  from allowed_hosts_split_on_commas [OF run1]
  have h1: "ALLOWED_HOSTS s1 = [''localhost'']" by (simp add: getenv_default_def)
  from allowed_hosts_split_on_commas [OF run2]
  have h2: "ALLOWED_HOSTS s2 = [''a.org'', ''b.org'']" by (simp add: getenv_default_def)
  from h1 h2 run1 run2 show ?thesis by simp
qed




section \<open>Exceptions\<close>




end
